theory Spec2Isabelle
  imports Main "HOL-Library.Word" "HOL-Library.Sublist"
begin

section \<open>The crypto-price skill\<close>

text \<open>
  The repository is one Python function, \<^verbatim>\<open>crypto_price(token_name)\<close>, in
  \<^verbatim>\<open>skills/crypto-price/__init__.py\<close>. It asks a price service for the token, falls
  back to the service's search, and wraps everything in one \<^verbatim>\<open>try\<close> with two
  \<^verbatim>\<open>except\<close> clauses. The embedding below follows the function statement by
  statement. What the function receives from outside (the HTTP library's answers) is an
  argument of the model; what the interpreter does to the values the function handles
  (membership, subscription, truth value, formatting) is written out for every decoded
  JSON value, since the function applies these operations to whatever the service sent.
\<close>

subsection \<open>Decoded JSON values\<close>

text \<open>
  \<^verbatim>\<open>response.json()\<close> yields \<^verbatim>\<open>None\<close>, a \<^verbatim>\<open>bool\<close>, an \<^verbatim>\<open>int\<close>
  (unbounded), a \<^verbatim>\<open>float\<close> (an IEEE double, kept as its 64 bits), a \<^verbatim>\<open>str\<close>, a
  \<^verbatim>\<open>list\<close> or a \<^verbatim>\<open>dict\<close> with string keys (kept as its items in order; the
  keys of a decoded dict are distinct).
\<close>

datatype json =
    JNull
  | JBool bool
  | JInt int
  | JFloat "64 word"
  | JStr string
  | JArr "json list"
  | JObj "(string \<times> json) list"

subsection \<open>Exceptions\<close>

text \<open>
  An exception is its class and the text \<^verbatim>\<open>str(e)\<close> gives. The classes are those the
  two \<^verbatim>\<open>except\<close> clauses can tell apart: the family of
  \<^verbatim>\<open>requests.exceptions.RequestException\<close> (the first eight) and other subclasses of
  \<^verbatim>\<open>Exception\<close>. \<open>RequestsJSONDecodeError\<close> is
  \<^verbatim>\<open>requests.exceptions.JSONDecodeError\<close>, which derives from \<open>InvalidJSONError\<close>;
  the standard library's \<^verbatim>\<open>json.JSONDecodeError\<close> is a \<open>ValueError\<close>.
\<close>

datatype exc_class =
    RequestException
  | HTTPError
  | ConnectionError
  | Timeout
  | TooManyRedirects
  | InvalidURL
  | InvalidJSONError
  | RequestsJSONDecodeError
  | ValueError
  | KeyError
  | IndexError
  | TypeError
  | OtherException

datatype py_exception = Exc exc_class string

fun is_request_exception :: "exc_class \<Rightarrow> bool" where
  "is_request_exception RequestException = True"
| "is_request_exception HTTPError = True"
| "is_request_exception ConnectionError = True"
| "is_request_exception Timeout = True"
| "is_request_exception TooManyRedirects = True"
| "is_request_exception InvalidURL = True"
| "is_request_exception InvalidJSONError = True"
| "is_request_exception RequestsJSONDecodeError = True"
| "is_request_exception ValueError = False"
| "is_request_exception KeyError = False"
| "is_request_exception IndexError = False"
| "is_request_exception TypeError = False"
| "is_request_exception OtherException = False"

subsection \<open>The interpreter's built-ins\<close>

text \<open>
  Four things the function relies on are the interpreter's own and are not written in the
  repository: \<^verbatim>\<open>str.lower\<close>, \<^verbatim>\<open>repr\<close> of a float, a string or a container,
  \<^verbatim>\<open>==\<close> where a float or two containers are compared, and the wording of a
  \<^verbatim>\<open>TypeError\<close> (it differs between interpreter versions). They are taken as a
  parameter, and every theorem holds for each choice of them.
\<close>

datatype py_op = Contains | Subscript | Hash

record python =
  str_lower :: "string \<Rightarrow> string"
  py_repr :: "json \<Rightarrow> string"
  py_equal :: "json \<Rightarrow> json \<Rightarrow> bool"
  type_error_text :: "py_op \<Rightarrow> string list \<Rightarrow> string"

fun type_name :: "json \<Rightarrow> string" where
  "type_name JNull = ''NoneType''"
| "type_name (JBool b) = ''bool''"
| "type_name (JInt i) = ''int''"
| "type_name (JFloat w) = ''float''"
| "type_name (JStr s) = ''str''"
| "type_name (JArr xs) = ''list''"
| "type_name (JObj d) = ''dict''"

definition type_error :: "python \<Rightarrow> py_op \<Rightarrow> json list \<Rightarrow> py_exception" where
  "type_error py op args = Exc TypeError (type_error_text py op (map type_name args))"

text \<open>Decimal digits of an \<^verbatim>\<open>int\<close>, as \<^verbatim>\<open>str\<close> and \<^verbatim>\<open>repr\<close> print it.\<close>

function str_nat :: "nat \<Rightarrow> string" where
  "str_nat n =
     (if n < 10 then [''0123456789'' ! n]
      else str_nat (n div 10) @ [''0123456789'' ! (n mod 10)])"
  by pat_completeness auto
termination
  by (relation "measure id") auto

declare str_nat.simps [simp del]

definition str_int :: "int \<Rightarrow> string" where
  "str_int i = (if i < 0 then ''-'' @ str_nat (nat (- i)) else str_nat (nat i))"

definition repr :: "python \<Rightarrow> json \<Rightarrow> string" where
  "repr py v =
     (case v of
        JNull \<Rightarrow> ''None''
      | JBool b \<Rightarrow> (if b then ''True'' else ''False'')
      | JInt i \<Rightarrow> str_int i
      | _ \<Rightarrow> py_repr py v)"

text \<open>A replacement field \<^verbatim>\<open>{v}\<close> of an f-string: \<^verbatim>\<open>format(v, '')\<close>, that is \<^verbatim>\<open>str(v)\<close>.\<close>

definition format :: "python \<Rightarrow> json \<Rightarrow> string" where
  "format py v = (case v of JStr s \<Rightarrow> s | _ \<Rightarrow> repr py v)"

text \<open>\<^verbatim>\<open>str(KeyError(k))\<close> is \<^verbatim>\<open>repr(k)\<close>.\<close>

definition key_error :: "python \<Rightarrow> json \<Rightarrow> py_exception" where
  "key_error py k = Exc KeyError (repr py k)"

text \<open>The truth value of a decoded value, as \<^verbatim>\<open>if\<close> and \<^verbatim>\<open>and\<close> test it.\<close>

fun truthy :: "json \<Rightarrow> bool" where
  "truthy JNull = False"
| "truthy (JBool b) = b"
| "truthy (JInt i) = (i \<noteq> 0)"
| "truthy (JFloat w) = (take_bit 63 w \<noteq> 0)"
| "truthy (JStr s) = (s \<noteq> [])"
| "truthy (JArr xs) = (xs \<noteq> [])"
| "truthy (JObj d) = (d \<noteq> [])"

text \<open>\<^verbatim>\<open>bool\<close> is a subclass of \<^verbatim>\<open>int\<close>: both index a sequence and compare as numbers.\<close>

fun as_int :: "json \<Rightarrow> int option" where
  "as_int (JBool b) = Some (if b then 1 else 0)"
| "as_int (JInt i) = Some i"
| "as_int v = None"

text \<open>
  The test \<^verbatim>\<open>x is e or x == e\<close> that \<^verbatim>\<open>in\<close> applies to the elements of a list. A
  string equals only the same string, \<^verbatim>\<open>None\<close> only \<^verbatim>\<open>None\<close>, and \<^verbatim>\<open>bool\<close>
  and \<^verbatim>\<open>int\<close> compare by value; what is left involves a float or a container.
\<close>

definition py_eq :: "python \<Rightarrow> json \<Rightarrow> json \<Rightarrow> bool" where
  "py_eq py x e =
     (case x of
        JStr a \<Rightarrow> e = JStr a
      | JNull \<Rightarrow> e = JNull
      | _ \<Rightarrow>
         (case e of
            JStr b \<Rightarrow> False
          | JNull \<Rightarrow> False
          | _ \<Rightarrow>
             (case (as_int x, as_int e) of
                (Some i, Some j) \<Rightarrow> i = j
              | _ \<Rightarrow> py_equal py x e)))"

fun hashable :: "json \<Rightarrow> bool" where
  "hashable (JArr xs) = False"
| "hashable (JObj d) = False"
| "hashable v = True"

text \<open>
  \<^verbatim>\<open>x in c\<close>. A dict hashes \<^verbatim>\<open>x\<close> and looks among its keys, which are strings; a
  list compares \<^verbatim>\<open>x\<close> with its elements; a string wants a string and looks for a
  substring; nothing else is a container.
\<close>

definition contains :: "python \<Rightarrow> json \<Rightarrow> json \<Rightarrow> py_exception + bool" where
  "contains py x c =
     (case c of
        JObj d \<Rightarrow>
          (if \<not> hashable x then Inl (type_error py Hash [x])
           else (case x of JStr s \<Rightarrow> Inr (map_of d s \<noteq> None) | _ \<Rightarrow> Inr False))
      | JArr xs \<Rightarrow> Inr (list_ex (py_eq py x) xs)
      | JStr s \<Rightarrow>
          (case x of
             JStr sub \<Rightarrow> Inr (sublist sub s)
           | _ \<Rightarrow> Inl (type_error py Contains [x, c]))
      | _ \<Rightarrow> Inl (type_error py Contains [x, c]))"

text \<open>Indexing a sequence of length \<open>n\<close>: a negative index counts from the end.\<close>

definition seq_index :: "nat \<Rightarrow> int \<Rightarrow> nat option" where
  "seq_index n i =
     (let j = (if i < 0 then i + int n else i)
      in if 0 \<le> j \<and> j < int n then Some (nat j) else None)"

text \<open>
  \<^verbatim>\<open>c[k]\<close>. The text of an \<open>IndexError\<close> is the one CPython gives for an index
  that fits the machine's index type; for a larger index it raises the same class with
  another text.
\<close>

definition subscript :: "python \<Rightarrow> json \<Rightarrow> json \<Rightarrow> py_exception + json" where
  "subscript py c k =
     (case c of
        JObj d \<Rightarrow>
          (if \<not> hashable k then Inl (type_error py Hash [k])
           else (case k of
                   JStr s \<Rightarrow> (case map_of d s of Some v \<Rightarrow> Inr v | None \<Rightarrow> Inl (key_error py k))
                 | _ \<Rightarrow> Inl (key_error py k)))
      | JArr xs \<Rightarrow>
          (case as_int k of
             None \<Rightarrow> Inl (type_error py Subscript [c, k])
           | Some i \<Rightarrow>
               (case seq_index (length xs) i of
                  None \<Rightarrow> Inl (Exc IndexError ''list index out of range'')
                | Some j \<Rightarrow> Inr (xs ! j)))
      | JStr s \<Rightarrow>
          (case as_int k of
             None \<Rightarrow> Inl (type_error py Subscript [c, k])
           | Some i \<Rightarrow>
               (case seq_index (length s) i of
                  None \<Rightarrow> Inl (Exc IndexError ''string index out of range'')
                | Some j \<Rightarrow> Inr (JStr [s ! j])))
      | _ \<Rightarrow> Inl (type_error py Subscript [c, k]))"

subsection \<open>The HTTP library\<close>

text \<open>
  \<^verbatim>\<open>requests.get(url)\<close> raises or returns a response. Of a response the function calls
  \<^verbatim>\<open>raise_for_status()\<close> and \<^verbatim>\<open>json()\<close>, which returns the decoded body or
  raises. A response is its status code, the text \<^verbatim>\<open>raise_for_status()\<close> gives its
  \<open>HTTPError\<close> when it raises one, and what \<^verbatim>\<open>json()\<close> does. The service is asked
  up to three times in one call; its answer may depend on which request of the call it is
  (0, 1, 2) and on the URL.
\<close>

record response =
  status_code :: nat
  http_error_text :: string
  json_result :: "py_exception + json"

text \<open>
  \<^verbatim>\<open>raise_for_status()\<close>, as the library has it: it raises \<open>HTTPError\<close> for a
  status from 400 to 599 and returns for every other status. \<open>None\<close> is returning,
  \<open>Some m\<close> is raising with text \<open>m\<close>.
\<close>

definition status_error :: "response \<Rightarrow> string option" where
  "status_error r =
     (if 400 \<le> status_code r \<and> status_code r < 600 then Some (http_error_text r) else None)"

datatype get_result = Raises py_exception | Returns response

type_synonym service = "nat \<Rightarrow> string \<Rightarrow> get_result"

text \<open>
  The three statements \<^verbatim>\<open>r = requests.get(url); r.raise_for_status(); r.json()\<close>,
  which the function repeats for each request.
\<close>

definition fetch :: "service \<Rightarrow> nat \<Rightarrow> string \<Rightarrow> py_exception + json" where
  "fetch http n url =
     (case http n url of
        Raises e \<Rightarrow> Inl e
      | Returns r \<Rightarrow>
          (case status_error r of
             Some m \<Rightarrow> Inl (Exc HTTPError m)
           | None \<Rightarrow> json_result r))"

subsection \<open>The function\<close>

definition and_then :: "'e + 'a \<Rightarrow> ('a \<Rightarrow> 'e + 'b) \<Rightarrow> 'e + 'b" where
  "and_then m f = (case m of Inl e \<Rightarrow> Inl e | Inr x \<Rightarrow> f x)"

definition price_url :: "string \<Rightarrow> string" where
  "price_url ident =
     ''https://api.coingecko.com/api/v3/simple/price?ids='' @ ident @ ''&vs_currencies=usd''"

definition search_url :: "string \<Rightarrow> string" where
  "search_url query = ''https://api.coingecko.com/api/v3/search?query='' @ query"

text \<open>The condition \<^verbatim>\<open>k in data and 'usd' in data[k]\<close>; \<^verbatim>\<open>and\<close> stops at a false left side.\<close>

definition has_usd :: "python \<Rightarrow> json \<Rightarrow> json \<Rightarrow> py_exception + bool" where
  "has_usd py k data =
     and_then (contains py k data) (\<lambda>found.
       if found then and_then (subscript py data k) (\<lambda>entry. contains py (JStr ''usd'') entry)
       else Inr False)"

text \<open>\<^verbatim>\<open>data[k]['usd']\<close>.\<close>

definition get_usd :: "python \<Rightarrow> json \<Rightarrow> json \<Rightarrow> py_exception + json" where
  "get_usd py k data =
     and_then (subscript py data k) (\<lambda>entry. subscript py entry (JStr ''usd''))"

text \<open>The condition \<^verbatim>\<open>search_data and search_data['coins']\<close>.\<close>

definition has_coins :: "python \<Rightarrow> json \<Rightarrow> py_exception + bool" where
  "has_coins py search_data =
     (if truthy search_data
      then and_then (subscript py search_data (JStr ''coins'')) (\<lambda>coins. Inr (truthy coins))
      else Inr False)"

text \<open>\<^verbatim>\<open>search_data['coins'][0]['id']\<close>.\<close>

definition first_coin :: "python \<Rightarrow> json \<Rightarrow> py_exception + json" where
  "first_coin py search_data =
     and_then (subscript py search_data (JStr ''coins'')) (\<lambda>coins.
     and_then (subscript py coins (JInt 0)) (\<lambda>coin.
     subscript py coin (JStr ''id'')))"

text \<open>The dict the function returns: its items.\<close>

type_synonym result = "(string \<times> string) list"

text \<open>
  The body of the \<^verbatim>\<open>try\<close>: what it returns or raises, and the URLs it has requested
  by then, in order.
\<close>

definition crypto_price_try ::
  "python \<Rightarrow> service \<Rightarrow> string \<Rightarrow> (py_exception + result) \<times> string list" where
  "crypto_price_try py http token_name =
     (let url = price_url (str_lower py token_name) in
      case fetch http 0 url of
        Inl e \<Rightarrow> (Inl e, [url])
      | Inr data \<Rightarrow>
         (case has_usd py (JStr (str_lower py token_name)) data of
            Inl e \<Rightarrow> (Inl e, [url])
          | Inr True \<Rightarrow>
              (and_then (get_usd py (JStr (str_lower py token_name)) data) (\<lambda>price.
                 Inr [(''token'', token_name), (''price'', ''$'' @ format py price @ '' USD'')]),
               [url])
          | Inr False \<Rightarrow>
             (let search_url = search_url token_name in
              case fetch http 1 search_url of
                Inl e \<Rightarrow> (Inl e, [url, search_url])
              | Inr search_data \<Rightarrow>
                 (case has_coins py search_data of
                    Inl e \<Rightarrow> (Inl e, [url, search_url])
                  | Inr False \<Rightarrow>
                      (Inr [(''error'', ''Could not find '' @ token_name @ '' or its price.'')],
                       [url, search_url])
                  | Inr True \<Rightarrow>
                     (case first_coin py search_data of
                        Inl e \<Rightarrow> (Inl e, [url, search_url])
                      | Inr first_coin_id \<Rightarrow>
                         (let price_url = price_url (format py first_coin_id) in
                          case fetch http 2 price_url of
                            Inl e \<Rightarrow> (Inl e, [url, search_url, price_url])
                          | Inr price_data \<Rightarrow>
                             (and_then (has_usd py first_coin_id price_data) (\<lambda>found.
                                if found
                                then and_then (get_usd py first_coin_id price_data) (\<lambda>price.
                                  Inr [(''token'', token_name),
                                       (''price'', ''$'' @ format py price @ '' USD (found as ''
                                          @ format py first_coin_id @ '')'')])
                                else Inr [(''error'',
                                           ''Could not find price for '' @ token_name @ ''.'')]),
                              [url, search_url, price_url])))))))"

text \<open>
  The two handlers: \<^verbatim>\<open>except requests.exceptions.RequestException\<close> first, then
  \<^verbatim>\<open>except Exception\<close>.
\<close>

definition handle :: "py_exception \<Rightarrow> result" where
  "handle e =
     (case e of Exc c m \<Rightarrow>
        if is_request_exception c then [(''error'', ''Failed to fetch crypto price: '' @ m)]
        else [(''error'', ''An unexpected error occurred: '' @ m)])"

text \<open>The function: the dict it returns and the URLs it requested.\<close>

definition crypto_price :: "python \<Rightarrow> service \<Rightarrow> string \<Rightarrow> result \<times> string list" where
  "crypto_price py http token_name =
     (case crypto_price_try py http token_name of
        (Inl e, urls) \<Rightarrow> (handle e, urls)
      | (Inr d, urls) \<Rightarrow> (d, urls))"

subsection \<open>Worked examples\<close>

text \<open>
  An instance of the built-ins for the examples. It lowers ASCII letters, prints a string
  in single quotes (right for a string without quotes, backslashes or control
  characters), and words a \<^verbatim>\<open>TypeError\<close> as CPython 3.12 does; the examples hold no
  floats and compare no containers.
\<close>

definition ascii_lower :: "string \<Rightarrow> string" where
  "ascii_lower s =
     map (\<lambda>c. case map_of (zip ''ABCDEFGHIJKLMNOPQRSTUVWXYZ'' ''abcdefghijklmnopqrstuvwxyz'') c of
                 Some l \<Rightarrow> l
               | None \<Rightarrow> c) s"

definition quoted :: "string \<Rightarrow> string" where
  "quoted s = [CHR 0x27] @ s @ [CHR 0x27]"

definition cpython_type_error_text :: "py_op \<Rightarrow> string list \<Rightarrow> string" where
  "cpython_type_error_text op ts =
     (case op of
        Hash \<Rightarrow> ''unhashable type: '' @ quoted (hd ts)
      | Contains \<Rightarrow>
          (if last ts = ''str''
           then quoted ''in <string>'' @ '' requires string as left operand, not '' @ hd ts
           else ''argument of type '' @ quoted (last ts) @ '' is not iterable'')
      | Subscript \<Rightarrow>
          (if hd ts = ''list''
           then ''list indices must be integers or slices, not '' @ last ts
           else if hd ts = ''str''
           then ''string indices must be integers, not '' @ quoted (last ts)
           else quoted (hd ts) @ '' object is not subscriptable''))"

definition example_python :: python where
  "example_python =
     \<lparr>str_lower = ascii_lower,
      py_repr = (\<lambda>v. case v of JStr s \<Rightarrow> quoted s | _ \<Rightarrow> ''...''),
      py_equal = (\<lambda>x e. x = e),
      type_error_text = cpython_type_error_text\<rparr>"

text \<open>A response with status 200 whose body decodes to \<open>body\<close>.\<close>

definition ok :: "json \<Rightarrow> get_result" where
  "ok body = Returns \<lparr>status_code = 200, http_error_text = [], json_result = Inr body\<rparr>"

text \<open>The price service knows \<^verbatim>\<open>bitcoin\<close> at 65000 USD and nothing else answers.\<close>

definition bitcoin_service :: service where
  "bitcoin_service n url =
     (if n = 0 \<and> url = price_url ''bitcoin''
      then ok (JObj [(''bitcoin'', JObj [(''usd'', JInt 65000)])])
      else Raises (Exc ConnectionError ''unreachable''))"

text \<open>
  A service that answers the requests of a call from a list, in order, whatever the URL,
  and is unreachable after that.
\<close>

definition scripted :: "get_result list \<Rightarrow> service" where
  "scripted answers n url =
     (if n < length answers then answers ! n else Raises (Exc ConnectionError ''unreachable''))"

text \<open>
  The price service does not know \<^verbatim>\<open>doge\<close>; the search ranks \<^verbatim>\<open>dogecoin\<close> first;
  the price service knows \<^verbatim>\<open>dogecoin\<close> at 15 USD.
\<close>

definition doge_service :: service where
  "doge_service =
     scripted
       [ok (JObj []),
        ok (JObj [(''coins'',
                   JArr [JObj [(''id'', JStr ''dogecoin''), (''name'', JStr ''Dogecoin'')],
                         JObj [(''id'', JStr ''doge-2''), (''name'', JStr ''Doge 2.0'')]])]),
        ok (JObj [(''dogecoin'', JObj [(''usd'', JInt 15)])])]"

text \<open>
  Nothing is known under the direct lookup, and the search answers with a non-empty
  object that has no \<^verbatim>\<open>coins\<close> field.
\<close>

definition no_coins_field_service :: service where
  "no_coins_field_service =
     scripted [ok (JObj []), ok (JObj [(''status'', JStr ''no results'')])]"

text \<open>Nothing is known under the direct lookup, and the search finds no candidate.\<close>

definition empty_search_service :: service where
  "empty_search_service = scripted [ok (JObj []), ok (JObj [(''coins'', JArr [])])]"

text \<open>
  The search ranks a candidate first, and the price service has an empty entry for it (no
  \<^verbatim>\<open>usd\<close> field).
\<close>

definition unpriced_service :: service where
  "unpriced_service =
     scripted
       [ok (JObj []),
        ok (JObj [(''coins'', JArr [JObj [(''id'', JStr ''dogecoin'')]])]),
        ok (JObj [(''dogecoin'', JObj [])])]"

text \<open>The search's first candidate has a name and no \<^verbatim>\<open>id\<close>.\<close>

definition no_id_service :: service where
  "no_id_service =
     scripted
       [ok (JObj []),
        ok (JObj [(''coins'', JArr [JObj [(''name'', JStr ''Dogecoin'')]])])]"

text \<open>
  The direct lookup finds an entry for \<^verbatim>\<open>doge\<close> that has no \<^verbatim>\<open>usd\<close> field; the
  rest is as in \<open>doge_service\<close>.
\<close>

definition doge_entry_service :: service where
  "doge_entry_service n url =
     (if n = 0 then ok (JObj [(''doge'', JObj [])]) else doge_service n url)"

text \<open>The first body is \<^verbatim>\<open>null\<close>.\<close>

definition null_body_service :: service where
  "null_body_service = scripted [ok JNull]"

text \<open>
  The first response has a success status and a body that is not JSON:
  \<^verbatim>\<open>response.json()\<close> raises \<^verbatim>\<open>requests.exceptions.JSONDecodeError\<close>.
\<close>

definition malformed_body_service :: service where
  "malformed_body_service =
     scripted
       [Returns \<lparr>status_code = 200, http_error_text = [],
                 json_result = Inl (Exc RequestsJSONDecodeError
                                     ''Expecting value: line 1 column 1 (char 0)'')\<rparr>]"


text \<open>
  Answers the first request as \<open>bitcoin_service\<close> does for \<^verbatim>\<open>bitcoin\<close>, and a
  second request with \<^verbatim>\<open>null\<close>.
\<close>

definition other_bitcoin_service :: service where
  "other_bitcoin_service =
     scripted [ok (JObj [(''bitcoin'', JObj [(''usd'', JInt 65000)])]), ok JNull]"

text \<open>
  The search's answer has status 200 and a body that is not JSON, and the library reports
  it with a \<open>ValueError\<close> (the standard library's \<^verbatim>\<open>json.JSONDecodeError\<close>).
\<close>

definition malformed_search_service :: service where
  "malformed_search_service =
     scripted
       [ok (JObj []),
        Returns \<lparr>status_code = 200, http_error_text = [],
                 json_result = Inl (Exc ValueError
                                     ''Expecting value: line 1 column 1 (char 0)'')\<rparr>]"


section \<open>Properties\<close>

subsection \<open>Auxiliary facts\<close>

lemma status_error_literal [simp]:
  "status_error \<lparr>status_code = code, http_error_text = m, json_result = j\<rparr> =
     (if 400 \<le> code \<and> code < 600 then Some m else None)"
  by (simp add: status_error_def)

lemma and_then_Inr [simp]: "and_then (Inr x) f = f x"
  by (simp add: and_then_def)

lemma and_then_Inl [simp]: "and_then (Inl e) f = Inl e"
  by (simp add: and_then_def)

lemma contains_obj_str [simp]:
  "contains py (JStr s) (JObj d) = Inr (map_of d s \<noteq> None)"
  by (simp add: contains_def)

lemma subscript_obj_str [simp]:
  "subscript py (JObj d) (JStr s) =
     (case map_of d s of Some v \<Rightarrow> Inr v | None \<Rightarrow> Inl (key_error py (JStr s)))"
  by (simp add: subscript_def)

lemma has_usd_obj:
  "has_usd py (JStr k) (JObj d) =
     (case map_of d k of None \<Rightarrow> Inr False | Some entry \<Rightarrow> contains py (JStr ''usd'') entry)"
  by (simp add: has_usd_def split: option.splits)

lemma get_usd_obj:
  "map_of d k = Some (JObj entry) \<Longrightarrow> map_of entry ''usd'' = Some price \<Longrightarrow>
   get_usd py (JStr k) (JObj d) = Inr price"
  by (simp add: get_usd_def)

lemma has_coins_obj:
  "map_of d ''coins'' = Some coins \<Longrightarrow> has_coins py (JObj d) = Inr (truthy coins)"
  by (auto simp: has_coins_def)

lemma has_coins_obj_absent:
  "map_of d ''coins'' = None \<Longrightarrow>
   has_coins py (JObj d) = (if d = [] then Inr False else Inl (key_error py (JStr ''coins'')))"
  by (simp add: has_coins_def)

lemma first_coin_obj:
  "map_of sd ''coins'' = Some (JArr (JObj coin # rest)) \<Longrightarrow>
   first_coin py (JObj sd) =
     (case map_of coin ''id'' of Some v \<Rightarrow> Inr v | None \<Rightarrow> Inl (key_error py (JStr ''id'')))"
  by (simp add: first_coin_def subscript_def seq_index_def)


lemma contains_raises: "contains py x c = Inl (Exc cl m) \<Longrightarrow> cl = TypeError"
  by (auto simp: contains_def type_error_def split: json.splits if_splits)

lemma subscript_raises:
  "subscript py c k = Inl (Exc cl m) \<Longrightarrow> cl = TypeError \<or> cl = KeyError \<or> cl = IndexError"
  by (auto simp: subscript_def type_error_def key_error_def
      split: json.splits if_splits option.splits)

lemma has_usd_raises:
  "has_usd py k data = Inl (Exc cl m) \<Longrightarrow> cl = TypeError \<or> cl = KeyError \<or> cl = IndexError"
  by (auto simp: has_usd_def and_then_def split: sum.splits if_splits
      dest: contains_raises subscript_raises)

lemma get_usd_raises:
  "get_usd py k data = Inl (Exc cl m) \<Longrightarrow> cl = TypeError \<or> cl = KeyError \<or> cl = IndexError"
  by (auto simp: get_usd_def and_then_def split: sum.splits dest: subscript_raises)

lemma has_coins_raises:
  "has_coins py search_data = Inl (Exc cl m) \<Longrightarrow>
   cl = TypeError \<or> cl = KeyError \<or> cl = IndexError"
  by (auto simp: has_coins_def and_then_def split: sum.splits if_splits dest: subscript_raises)

lemma first_coin_raises:
  "first_coin py search_data = Inl (Exc cl m) \<Longrightarrow>
   cl = TypeError \<or> cl = KeyError \<or> cl = IndexError"
  by (auto simp: first_coin_def and_then_def split: sum.splits dest: subscript_raises)

lemma handle_shape: "\<exists>m. handle e = [(''error'', m)]"
  by (cases e) (simp add: handle_def)

subsection \<open>The worked examples\<close>

lemma scripted_simps [simp]:
  "scripted (a # as) 0 url = a"
  "scripted (a # b # as) (Suc 0) url = b"
  "scripted (a # b # c # as) 2 url = c"
  by (simp_all add: scripted_def)

lemma lower_Bitcoin: "str_lower example_python ''Bitcoin'' = ''bitcoin''"
  by (simp add: example_python_def ascii_lower_def)

lemma lower_Doge: "str_lower example_python ''Doge'' = ''doge''"
  by (simp add: example_python_def ascii_lower_def)

lemma lower_nonexistenttoken:
  "str_lower example_python ''nonexistenttoken'' = ''nonexistenttoken''"
  by (simp add: example_python_def ascii_lower_def)

lemma repr_example_str: "repr example_python (JStr s) = quoted s"
  by (simp add: repr_def example_python_def)

subsection \<open>The paths through the body\<close>

text \<open>
  One fact for each way through the \<^verbatim>\<open>try\<close> block: what the requests and the tests
  gave, and what the block then returns or raises after which requests.
\<close>

lemma try_fail0:
  "fetch http 0 (price_url (str_lower py t)) = Inl e \<Longrightarrow>
   crypto_price_try py http t = (Inl e, [price_url (str_lower py t)])"
  by (simp add: crypto_price_try_def)

lemma try_shape0:
  "fetch http 0 (price_url (str_lower py t)) = Inr data \<Longrightarrow>
   has_usd py (JStr (str_lower py t)) data = Inl e \<Longrightarrow>
   crypto_price_try py http t = (Inl e, [price_url (str_lower py t)])"
  by (simp add: crypto_price_try_def)

lemma try_hit0:
  "fetch http 0 (price_url (str_lower py t)) = Inr data \<Longrightarrow>
   has_usd py (JStr (str_lower py t)) data = Inr True \<Longrightarrow>
   crypto_price_try py http t =
     (and_then (get_usd py (JStr (str_lower py t)) data) (\<lambda>price.
        Inr [(''token'', t), (''price'', ''$'' @ format py price @ '' USD'')]),
      [price_url (str_lower py t)])"
  by (simp add: crypto_price_try_def)

lemma try_fail1:
  "fetch http 0 (price_url (str_lower py t)) = Inr data \<Longrightarrow>
   has_usd py (JStr (str_lower py t)) data = Inr False \<Longrightarrow>
   fetch http 1 (search_url t) = Inl e \<Longrightarrow>
   crypto_price_try py http t = (Inl e, [price_url (str_lower py t), search_url t])"
  by (simp add: crypto_price_try_def)

lemma try_shape1:
  "fetch http 0 (price_url (str_lower py t)) = Inr data \<Longrightarrow>
   has_usd py (JStr (str_lower py t)) data = Inr False \<Longrightarrow>
   fetch http 1 (search_url t) = Inr search_data \<Longrightarrow>
   has_coins py search_data = Inl e \<Longrightarrow>
   crypto_price_try py http t = (Inl e, [price_url (str_lower py t), search_url t])"
  by (simp add: crypto_price_try_def)

lemma try_no_coins:
  "fetch http 0 (price_url (str_lower py t)) = Inr data \<Longrightarrow>
   has_usd py (JStr (str_lower py t)) data = Inr False \<Longrightarrow>
   fetch http 1 (search_url t) = Inr search_data \<Longrightarrow>
   has_coins py search_data = Inr False \<Longrightarrow>
   crypto_price_try py http t =
     (Inr [(''error'', ''Could not find '' @ t @ '' or its price.'')],
      [price_url (str_lower py t), search_url t])"
  by (simp add: crypto_price_try_def)

lemma try_shape_id:
  "fetch http 0 (price_url (str_lower py t)) = Inr data \<Longrightarrow>
   has_usd py (JStr (str_lower py t)) data = Inr False \<Longrightarrow>
   fetch http 1 (search_url t) = Inr search_data \<Longrightarrow>
   has_coins py search_data = Inr True \<Longrightarrow>
   first_coin py search_data = Inl e \<Longrightarrow>
   crypto_price_try py http t = (Inl e, [price_url (str_lower py t), search_url t])"
  by (simp add: crypto_price_try_def)

lemma try_fail2:
  "fetch http 0 (price_url (str_lower py t)) = Inr data \<Longrightarrow>
   has_usd py (JStr (str_lower py t)) data = Inr False \<Longrightarrow>
   fetch http 1 (search_url t) = Inr search_data \<Longrightarrow>
   has_coins py search_data = Inr True \<Longrightarrow>
   first_coin py search_data = Inr first_coin_id \<Longrightarrow>
   fetch http 2 (price_url (format py first_coin_id)) = Inl e \<Longrightarrow>
   crypto_price_try py http t =
     (Inl e, [price_url (str_lower py t), search_url t, price_url (format py first_coin_id)])"
  by (simp add: crypto_price_try_def)

lemma try_fallback:
  "fetch http 0 (price_url (str_lower py t)) = Inr data \<Longrightarrow>
   has_usd py (JStr (str_lower py t)) data = Inr False \<Longrightarrow>
   fetch http 1 (search_url t) = Inr search_data \<Longrightarrow>
   has_coins py search_data = Inr True \<Longrightarrow>
   first_coin py search_data = Inr first_coin_id \<Longrightarrow>
   fetch http 2 (price_url (format py first_coin_id)) = Inr price_data \<Longrightarrow>
   crypto_price_try py http t =
     (and_then (has_usd py first_coin_id price_data) (\<lambda>found.
        if found
        then and_then (get_usd py first_coin_id price_data) (\<lambda>price.
          Inr [(''token'', t),
               (''price'', ''$'' @ format py price @ '' USD (found as ''
                  @ format py first_coin_id @ '')'')])
        else Inr [(''error'', ''Could not find price for '' @ t @ ''.'')]),
      [price_url (str_lower py t), search_url t, price_url (format py first_coin_id)])"
  by (simp add: crypto_price_try_def)

lemma try_cases [case_names fail0 shape0 hit0 fail1 shape1 no_coins shape_id fail2 fallback]:
  obtains
    e where "fetch http 0 (price_url (str_lower py t)) = Inl e"
  | data e where "fetch http 0 (price_url (str_lower py t)) = Inr data"
      "has_usd py (JStr (str_lower py t)) data = Inl e"
  | data where "fetch http 0 (price_url (str_lower py t)) = Inr data"
      "has_usd py (JStr (str_lower py t)) data = Inr True"
  | data e where "fetch http 0 (price_url (str_lower py t)) = Inr data"
      "has_usd py (JStr (str_lower py t)) data = Inr False"
      "fetch http 1 (search_url t) = Inl e"
  | data search_data e where "fetch http 0 (price_url (str_lower py t)) = Inr data"
      "has_usd py (JStr (str_lower py t)) data = Inr False"
      "fetch http 1 (search_url t) = Inr search_data"
      "has_coins py search_data = Inl e"
  | data search_data where "fetch http 0 (price_url (str_lower py t)) = Inr data"
      "has_usd py (JStr (str_lower py t)) data = Inr False"
      "fetch http 1 (search_url t) = Inr search_data"
      "has_coins py search_data = Inr False"
  | data search_data e where "fetch http 0 (price_url (str_lower py t)) = Inr data"
      "has_usd py (JStr (str_lower py t)) data = Inr False"
      "fetch http 1 (search_url t) = Inr search_data"
      "has_coins py search_data = Inr True"
      "first_coin py search_data = Inl e"
  | data search_data first_coin_id e where "fetch http 0 (price_url (str_lower py t)) = Inr data"
      "has_usd py (JStr (str_lower py t)) data = Inr False"
      "fetch http 1 (search_url t) = Inr search_data"
      "has_coins py search_data = Inr True"
      "first_coin py search_data = Inr first_coin_id"
      "fetch http 2 (price_url (format py first_coin_id)) = Inl e"
  | data search_data first_coin_id price_data where
      "fetch http 0 (price_url (str_lower py t)) = Inr data"
      "has_usd py (JStr (str_lower py t)) data = Inr False"
      "fetch http 1 (search_url t) = Inr search_data"
      "has_coins py search_data = Inr True"
      "first_coin py search_data = Inr first_coin_id"
      "fetch http 2 (price_url (format py first_coin_id)) = Inr price_data"
proof (cases "fetch http 0 (price_url (str_lower py t))")
  case (Inl e)
  then show ?thesis by (rule that(1))
next
  case first: (Inr data)
  show ?thesis
  proof (cases "has_usd py (JStr (str_lower py t)) data")
    case (Inl e)
    with first show ?thesis by (rule that(2))
  next
    case (Inr found)
    show ?thesis
    proof (cases found)
      case True
      with Inr have "has_usd py (JStr (str_lower py t)) data = Inr True" by simp
      with first show ?thesis by (rule that(3))
    next
      case False
      with Inr have miss: "has_usd py (JStr (str_lower py t)) data = Inr False" by simp
      show ?thesis
      proof (cases "fetch http 1 (search_url t)")
        case (Inl e)
        with first miss show ?thesis by (rule that(4))
      next
        case search: (Inr search_data)
        show ?thesis
        proof (cases "has_coins py search_data")
          case (Inl e)
          with first miss search show ?thesis by (rule that(5))
        next
          case coins: (Inr b)
          show ?thesis
          proof (cases b)
            case False
            with coins have "has_coins py search_data = Inr False" by simp
            with first miss search show ?thesis by (rule that(6))
          next
            case True
            with coins have coins': "has_coins py search_data = Inr True" by simp
            show ?thesis
            proof (cases "first_coin py search_data")
              case (Inl e)
              with first miss search coins' show ?thesis by (rule that(7))
            next
              case ident: (Inr first_coin_id)
              show ?thesis
              proof (cases "fetch http 2 (price_url (format py first_coin_id))")
                case (Inl e)
                with first miss search coins' ident show ?thesis by (rule that(8))
              next
                case (Inr price_data)
                with first miss search coins' ident show ?thesis by (rule that(9))
              qed
            qed
          qed
        qed
      qed
    qed
  qed
qed

lemma crypto_price_urls: "snd (crypto_price py http t) = snd (crypto_price_try py http t)"
  by (cases "crypto_price_try py http t") (auto simp: crypto_price_def split: sum.splits)

lemma try_shape:
  "crypto_price_try py http t = (r, urls) \<Longrightarrow>
   (case r of
      Inl e \<Rightarrow> True
    | Inr d \<Rightarrow> (\<exists>price. d = [(''token'', t), (''price'', price)]) \<or> (\<exists>m. d = [(''error'', m)])) \<and>
   1 \<le> length urls \<and> length urls \<le> 3"
proof (cases rule: try_cases [of http py t])
  case (fail0 e)
  assume "crypto_price_try py http t = (r, urls)"
  with try_fail0 [OF fail0] show ?thesis by auto
next
  case (shape0 data e)
  assume "crypto_price_try py http t = (r, urls)"
  with try_shape0 [OF shape0] show ?thesis by auto
next
  case (hit0 data)
  assume "crypto_price_try py http t = (r, urls)"
  with try_hit0 [OF hit0] show ?thesis
    by (cases "get_usd py (JStr (str_lower py t)) data") auto
next
  case (fail1 data e)
  assume "crypto_price_try py http t = (r, urls)"
  with try_fail1 [OF fail1] show ?thesis by auto
next
  case (shape1 data search_data e)
  assume "crypto_price_try py http t = (r, urls)"
  with try_shape1 [OF shape1] show ?thesis by auto
next
  case (no_coins data search_data)
  assume "crypto_price_try py http t = (r, urls)"
  with try_no_coins [OF no_coins] show ?thesis by auto
next
  case (shape_id data search_data e)
  assume "crypto_price_try py http t = (r, urls)"
  with try_shape_id [OF shape_id] show ?thesis by auto
next
  case (fail2 data search_data first_coin_id e)
  assume "crypto_price_try py http t = (r, urls)"
  with try_fail2 [OF fail2] show ?thesis by auto
next
  case (fallback data search_data first_coin_id price_data)
  assume "crypto_price_try py http t = (r, urls)"
  with try_fallback [OF fallback] show ?thesis
    by (cases "has_usd py first_coin_id price_data";
        cases "get_usd py first_coin_id price_data") auto
qed

lemma try_raises:
  assumes "crypto_price_try py http t = (Inl (Exc c m), urls)"
    and "\<forall>n < length urls. \<exists>body. fetch http n (urls ! n) = Inr body"
  shows "c = TypeError \<or> c = KeyError \<or> c = IndexError"
proof (cases rule: try_cases [of http py t])
  case (fail0 e)
  with try_fail0 [OF fail0] assms(1) have "urls = [price_url (str_lower py t)]"
    and "fetch http 0 (price_url (str_lower py t)) = Inl e"
    by simp_all
  with assms(2) show ?thesis by auto
next
  case (shape0 data e)
  with try_shape0 [OF shape0] assms(1) show ?thesis by (auto dest: has_usd_raises)
next
  case (hit0 data)
  with try_hit0 [OF hit0] assms(1) show ?thesis
    by (cases "get_usd py (JStr (str_lower py t)) data") (auto dest: get_usd_raises)
next
  case (fail1 data e)
  with try_fail1 [OF fail1] assms(1) have "urls = [price_url (str_lower py t), search_url t]"
    and "fetch http 1 (search_url t) = Inl e"
    by simp_all
  with assms(2) [rule_format, of 1] show ?thesis by simp
next
  case (shape1 data search_data e)
  with try_shape1 [OF shape1] assms(1) show ?thesis by (auto dest: has_coins_raises)
next
  case (no_coins data search_data)
  with try_no_coins [OF no_coins] assms(1) show ?thesis by simp
next
  case (shape_id data search_data e)
  with try_shape_id [OF shape_id] assms(1) show ?thesis by (auto dest: first_coin_raises)
next
  case (fail2 data search_data first_coin_id e)
  with try_fail2 [OF fail2] assms(1)
  have "urls = [price_url (str_lower py t), search_url t, price_url (format py first_coin_id)]"
    and "fetch http 2 (price_url (format py first_coin_id)) = Inl e"
    by simp_all
  with assms(2) [rule_format, of 2] show ?thesis by simp
next
  case (fallback data search_data first_coin_id price_data)
  with try_fallback [OF fallback] assms(1) show ?thesis
    by (cases "has_usd py first_coin_id price_data";
        cases "get_usd py first_coin_id price_data")
       (auto dest: has_usd_raises get_usd_raises split: if_splits)
qed

lemma try_transport_failure:
  assumes "n < length (snd (crypto_price_try py http t))"
    and "fetch http n (snd (crypto_price_try py http t) ! n) = Inl (Exc c m)"
  shows "fst (crypto_price_try py http t) = Inl (Exc c m)"
proof (cases rule: try_cases [of http py t])
  case (fail0 e)
  with assms show ?thesis by (simp add: try_fail0)
next
  case (shape0 data e)
  with assms show ?thesis by (simp add: try_shape0)
next
  case (hit0 data)
  with assms show ?thesis by (simp add: try_hit0)
next
  case (fail1 data e)
  with assms show ?thesis by (auto simp: try_fail1 less_Suc_eq numeral_2_eq_2)
next
  case (shape1 data search_data e)
  with assms show ?thesis by (auto simp: try_shape1 less_Suc_eq numeral_2_eq_2)
next
  case (no_coins data search_data)
  with assms show ?thesis by (auto simp: try_no_coins less_Suc_eq numeral_2_eq_2)
next
  case (shape_id data search_data e)
  with assms show ?thesis by (auto simp: try_shape_id less_Suc_eq numeral_2_eq_2)
next
  case (fail2 data search_data first_coin_id e)
  with assms show ?thesis
    by (auto simp: try_fail2 less_Suc_eq numeral_2_eq_2 numeral_3_eq_3)
next
  case (fallback data search_data first_coin_id price_data)
  with assms show ?thesis
    by (auto simp: try_fallback less_Suc_eq numeral_2_eq_2 numeral_3_eq_3)
qed

lemma try_after_miss_cong:
  assumes "fetch http 0 (price_url (str_lower py t)) = Inr data"
    and "has_usd py (JStr (str_lower py t)) data = Inr False"
    and "fetch http' 0 (price_url (str_lower py t)) = Inr data'"
    and "has_usd py (JStr (str_lower py t)) data' = Inr False"
    and "fetch http' 1 (search_url t) = fetch http 1 (search_url t)"
    and "\<And>url. fetch http' 2 url = fetch http 2 url"
  shows "crypto_price_try py http' t = crypto_price_try py http t"
  unfolding crypto_price_try_def Let_def
  by (simp only: assms sum.case bool.case)

lemma try_after_miss_urls:
  assumes "fetch http 0 (price_url (str_lower py t)) = Inr data"
    and "has_usd py (JStr (str_lower py t)) data = Inr False"
  shows "take 2 (snd (crypto_price_try py http t)) = [price_url (str_lower py t), search_url t]"
proof (cases "fetch http 1 (search_url t)")
  case (Inl e)
  then show ?thesis
    by (simp add: try_fail1 [OF assms])
next
  case search: (Inr search_data)
  show ?thesis
  proof (cases "has_coins py search_data")
    case (Inl e)
    then show ?thesis
      by (simp add: try_shape1 [OF assms search])
  next
    case coins: (Inr b)
    show ?thesis
    proof (cases b)
      case False
      with coins show ?thesis
        by (simp add: try_no_coins [OF assms search])
    next
      case True
      with coins have coins': "has_coins py search_data = Inr True"
        by simp
      show ?thesis
      proof (cases "first_coin py search_data")
        case (Inl e)
        then show ?thesis
          by (simp add: try_shape_id [OF assms search coins'])
      next
        case ident: (Inr first_coin_id)
        show ?thesis
        proof (cases "fetch http 2 (price_url (format py first_coin_id))")
          case (Inl e)
          then show ?thesis
            by (simp add: try_fail2 [OF assms search coins' ident])
        next
          case (Inr price_data)
          then show ?thesis
            by (simp add: try_fallback [OF assms search coins' ident])
        qed
      qed
    qed
  qed
qed

lemma try_same_answers:
  assumes "\<And>n. n < length (snd (crypto_price_try py http t)) \<Longrightarrow>
             fetch http' n (snd (crypto_price_try py http t) ! n)
               = fetch http n (snd (crypto_price_try py http t) ! n)"
  shows "crypto_price_try py http' t = crypto_price_try py http t"
proof (cases rule: try_cases [of http py t])
  case (fail0 e)
  note run = try_fail0 [OF fail0]
  from assms [of 0] fail0 have "fetch http' 0 (price_url (str_lower py t)) = Inl e"
    by (simp add: run)
  then show ?thesis
    by (simp add: run try_fail0)
next
  case (shape0 data e)
  note run = try_shape0 [OF shape0]
  from assms [of 0] shape0 have "fetch http' 0 (price_url (str_lower py t)) = Inr data"
    by (simp add: run)
  with shape0 show ?thesis
    by (simp add: run try_shape0)
next
  case (hit0 data)
  note run = try_hit0 [OF hit0]
  from assms [of 0] hit0 have "fetch http' 0 (price_url (str_lower py t)) = Inr data"
    by (simp add: run)
  with hit0 show ?thesis
    by (simp add: run try_hit0)
next
  case (fail1 data e)
  note run = try_fail1 [OF fail1]
  from assms [of 0] assms [of 1] fail1
  have "fetch http' 0 (price_url (str_lower py t)) = Inr data"
    and "fetch http' 1 (search_url t) = Inl e"
    by (simp_all add: run)
  with fail1 show ?thesis
    by (simp add: run try_fail1)
next
  case (shape1 data search_data e)
  note run = try_shape1 [OF shape1]
  from assms [of 0] assms [of 1] shape1
  have "fetch http' 0 (price_url (str_lower py t)) = Inr data"
    and "fetch http' 1 (search_url t) = Inr search_data"
    by (simp_all add: run)
  with shape1 show ?thesis
    by (simp add: run try_shape1)
next
  case (no_coins data search_data)
  note run = try_no_coins [OF no_coins]
  from assms [of 0] assms [of 1] no_coins
  have "fetch http' 0 (price_url (str_lower py t)) = Inr data"
    and "fetch http' 1 (search_url t) = Inr search_data"
    by (simp_all add: run)
  with no_coins show ?thesis
    by (simp add: run try_no_coins)
next
  case (shape_id data search_data e)
  note run = try_shape_id [OF shape_id]
  from assms [of 0] assms [of 1] shape_id
  have "fetch http' 0 (price_url (str_lower py t)) = Inr data"
    and "fetch http' 1 (search_url t) = Inr search_data"
    by (simp_all add: run)
  with shape_id show ?thesis
    by (simp add: run try_shape_id)
next
  case (fail2 data search_data first_coin_id e)
  note run = try_fail2 [OF fail2]
  from assms [of 0] assms [of 1] assms [of 2] fail2
  have "fetch http' 0 (price_url (str_lower py t)) = Inr data"
    and "fetch http' 1 (search_url t) = Inr search_data"
    and "fetch http' 2 (price_url (format py first_coin_id)) = Inl e"
    by (simp_all add: run)
  with fail2 show ?thesis
    by (simp add: run try_fail2)
next
  case (fallback data search_data first_coin_id price_data)
  note run = try_fallback [OF fallback]
  from assms [of 0] assms [of 1] assms [of 2] fallback
  have "fetch http' 0 (price_url (str_lower py t)) = Inr data"
    and "fetch http' 1 (search_url t) = Inr search_data"
    and "fetch http' 2 (price_url (format py first_coin_id)) = Inr price_data"
    by (simp_all add: run)
  with fallback show ?thesis
    by (simp add: run try_fallback)
qed

subsection \<open>The direct lookup\<close>

text \<open>
  C1. When the first request succeeds and its body is an object that has, under the
  lowercased token name, an object with a \<^verbatim>\<open>usd\<close> field, the function returns the
  token name as it was given and the price \<^verbatim>\<open>$<value> USD\<close> with no annotation. It has
  made that one request and nothing else: the search is not asked.
\<close>

theorem direct_price_success:
  assumes "fetch http 0 (price_url (str_lower py token_name)) = Inr (JObj d)"
    and "map_of d (str_lower py token_name) = Some (JObj entry)"
    and "map_of entry ''usd'' = Some price"
  shows "crypto_price py http token_name =
           ([(''token'', token_name), (''price'', ''$'' @ format py price @ '' USD'')],
            [price_url (str_lower py token_name)])"
  using assms
  by (simp add: crypto_price_def crypto_price_try_def has_usd_obj get_usd_obj)

theorem direct_price_success_witness:
  "fetch bitcoin_service 0 (price_url (str_lower example_python ''Bitcoin''))
     = Inr (JObj [(''bitcoin'', JObj [(''usd'', JInt 65000)])]) \<and>
   crypto_price example_python bitcoin_service ''Bitcoin'' =
     ([(''token'', ''Bitcoin''), (''price'', ''$65000 USD'')], [price_url ''bitcoin''])"
  using direct_price_success [of bitcoin_service example_python "''Bitcoin''"
      "[(''bitcoin'', JObj [(''usd'', JInt 65000)])]" "[(''usd'', JInt 65000)]" "JInt 65000"]
  by (simp add: lower_Bitcoin bitcoin_service_def fetch_def ok_def format_def repr_def
      str_int_def str_nat.simps)

text \<open>
  C9. When the first body is an object that has, under the lowercased token name, an
  object without a \<^verbatim>\<open>usd\<close> field, the call goes on exactly as a call does whose
  first body has no entry under that name and whose later requests are answered the
  same: both return the same dict after the same requests, and the second request is
  the search.
\<close>

theorem entry_without_usd_is_a_miss:
  assumes "fetch http 0 (price_url (str_lower py token_name)) = Inr (JObj d)"
    and "map_of d (str_lower py token_name) = Some (JObj entry)"
    and "map_of entry ''usd'' = None"
    and "fetch http' 0 (price_url (str_lower py token_name)) = Inr (JObj d')"
    and "map_of d' (str_lower py token_name) = None"
    and "\<forall>n url. 0 < n \<longrightarrow> http' n url = http n url"
  shows "crypto_price py http token_name = crypto_price py http' token_name \<and>
         take 2 (snd (crypto_price py http token_name)) =
           [price_url (str_lower py token_name), search_url token_name]"
proof -
  have miss: "has_usd py (JStr (str_lower py token_name)) (JObj d) = Inr False"
    using assms(2,3) by (simp add: has_usd_obj)
  have miss': "has_usd py (JStr (str_lower py token_name)) (JObj d') = Inr False"
    using assms(5) by (simp add: has_usd_obj)
  have later: "fetch http' 1 url = fetch http 1 url" "fetch http' 2 url = fetch http 2 url"
    for url
    using assms(6) by (simp_all add: fetch_def)
  have "crypto_price_try py http' token_name = crypto_price_try py http token_name"
    using assms(1) miss assms(4) miss' later by (rule try_after_miss_cong)
  then have same: "crypto_price py http token_name = crypto_price py http' token_name"
    by (simp add: crypto_price_def)
  have "take 2 (snd (crypto_price_try py http token_name)) =
          [price_url (str_lower py token_name), search_url token_name]"
    using assms(1) miss by (rule try_after_miss_urls)
  then have "take 2 (snd (crypto_price py http token_name)) =
          [price_url (str_lower py token_name), search_url token_name]"
    by (simp only: crypto_price_urls)
  with same show ?thesis
    by (rule conjI)
qed

theorem entry_without_usd_is_a_miss_witness:
  "fetch doge_entry_service 0 (price_url (str_lower example_python ''Doge''))
     = Inr (JObj [(''doge'', JObj [])]) \<and>
   fetch doge_service 0 (price_url (str_lower example_python ''Doge'')) = Inr (JObj []) \<and>
   crypto_price example_python doge_entry_service ''Doge''
     = crypto_price example_python doge_service ''Doge'' \<and>
   take 2 (snd (crypto_price example_python doge_entry_service ''Doge''))
     = [price_url ''doge'', search_url ''Doge'']"
proof -
  have first: "fetch doge_entry_service 0 (price_url (str_lower example_python ''Doge''))
      = Inr (JObj [(''doge'', JObj [])])"
    by (simp add: doge_entry_service_def fetch_def ok_def)
  have first': "fetch doge_service 0 (price_url (str_lower example_python ''Doge''))
      = Inr (JObj [])"
    by (simp add: doge_service_def fetch_def ok_def)
  have later: "\<forall>n url. 0 < n \<longrightarrow> doge_service n url = doge_entry_service n url"
    by (simp add: doge_entry_service_def)
  have entry: "map_of [(''doge'', JObj [])] (str_lower example_python ''Doge'') = Some (JObj [])"
    by (simp add: lower_Doge)
  have no_usd: "map_of ([] :: (string \<times> json) list) ''usd'' = None"
    by simp
  have no_entry: "map_of ([] :: (string \<times> json) list) (str_lower example_python ''Doge'') = None"
    by simp
  note same = entry_without_usd_is_a_miss [OF first entry no_usd first' no_entry later]
  show ?thesis
  proof (intro conjI)
    show "fetch doge_entry_service 0 (price_url (str_lower example_python ''Doge''))
        = Inr (JObj [(''doge'', JObj [])])"
      by (rule first)
    show "fetch doge_service 0 (price_url (str_lower example_python ''Doge'')) = Inr (JObj [])"
      by (rule first')
    show "crypto_price example_python doge_entry_service ''Doge''
        = crypto_price example_python doge_service ''Doge''"
      by (rule same [THEN conjunct1])
    show "take 2 (snd (crypto_price example_python doge_entry_service ''Doge''))
        = [price_url ''doge'', search_url ''Doge'']"
      using same [THEN conjunct2] by (simp only: lower_Doge)
  qed
qed

subsection \<open>The search fallback\<close>

text \<open>
  C2. When the direct lookup misses (the first request succeeds and the test on its body
  is false), the search body is an object whose \<^verbatim>\<open>coins\<close> is a list that starts with
  an object of identifier \<open>first_coin_id\<close>, and the price body fetched for that
  identifier has an object with a \<^verbatim>\<open>usd\<close> field under it, the function returns the
  token name and \<^verbatim>\<open>$<value> USD (found as <first_coin_id>)\<close>. The third request is for
  the first candidate, whatever the candidates \<open>rest\<close> ranked below it are.
\<close>

theorem fallback_price_success:
  assumes "fetch http 0 (price_url (str_lower py token_name)) = Inr data"
    and "has_usd py (JStr (str_lower py token_name)) data = Inr False"
    and "fetch http 1 (search_url token_name) = Inr (JObj sd)"
    and "map_of sd ''coins'' = Some (JArr (JObj coin # rest))"
    and "map_of coin ''id'' = Some (JStr first_coin_id)"
    and "fetch http 2 (price_url first_coin_id) = Inr (JObj pd)"
    and "map_of pd first_coin_id = Some (JObj entry)"
    and "map_of entry ''usd'' = Some price"
  shows "crypto_price py http token_name =
           ([(''token'', token_name),
             (''price'', ''$'' @ format py price @ '' USD (found as '' @ first_coin_id @ '')'')],
            [price_url (str_lower py token_name), search_url token_name,
             price_url first_coin_id])"
proof -
  have coins: "has_coins py (JObj sd) = Inr True"
    using assms(4) by (simp add: has_coins_obj)
  have ident: "first_coin py (JObj sd) = Inr (JStr first_coin_id)"
    using assms(4,5) by (simp add: first_coin_obj)
  have third: "fetch http 2 (price_url (format py (JStr first_coin_id))) = Inr (JObj pd)"
    using assms(6) by (simp add: format_def)
  have found: "has_usd py (JStr first_coin_id) (JObj pd) = Inr True"
    using assms(7,8) by (simp add: has_usd_obj)
  have price: "get_usd py (JStr first_coin_id) (JObj pd) = Inr price"
    using assms(7,8) by (rule get_usd_obj)
  show ?thesis
    by (simp add: crypto_price_def try_fallback [OF assms(1,2,3) coins ident third] found price
        format_def)
qed

theorem fallback_price_success_witness:
  "has_usd example_python (JStr (str_lower example_python ''Doge'')) (JObj []) = Inr False \<and>
   crypto_price example_python doge_service ''Doge'' =
     ([(''token'', ''Doge''), (''price'', ''$15 USD (found as dogecoin)'')],
      [price_url ''doge'', search_url ''Doge'', price_url ''dogecoin''])"
  using fallback_price_success [of doge_service example_python "''Doge''" "JObj []"
      "[(''coins'',
         JArr [JObj [(''id'', JStr ''dogecoin''), (''name'', JStr ''Dogecoin'')],
               JObj [(''id'', JStr ''doge-2''), (''name'', JStr ''Doge 2.0'')]])]"
      "[(''id'', JStr ''dogecoin''), (''name'', JStr ''Dogecoin'')]"
      "[JObj [(''id'', JStr ''doge-2''), (''name'', JStr ''Doge 2.0'')]]"
      "''dogecoin''" "[(''dogecoin'', JObj [(''usd'', JInt 15)])]" "[(''usd'', JInt 15)]" "JInt 15"]
  by (simp add: lower_Doge doge_service_def fetch_def ok_def has_usd_obj format_def repr_def
      str_int_def str_nat.simps)

text \<open>
  C3, as the claim states it, fails: with a search body that is a non-empty object
  without a \<^verbatim>\<open>coins\<close> field, \<^verbatim>\<open>search_data['coins']\<close> raises \<open>KeyError\<close>, and the
  function returns the catch-all message, not \<^verbatim>\<open>Could not find ... or its price.\<close>
\<close>

theorem absent_coins_counterexample:
  "fetch no_coins_field_service 0 (price_url (str_lower example_python ''nonexistenttoken''))
     = Inr (JObj []) \<and>
   has_usd example_python (JStr (str_lower example_python ''nonexistenttoken'')) (JObj [])
     = Inr False \<and>
   fetch no_coins_field_service 1 (search_url ''nonexistenttoken'')
     = Inr (JObj [(''status'', JStr ''no results'')]) \<and>
   map_of [(''status'', JStr ''no results'')] ''coins'' = None \<and>
   fst (crypto_price example_python no_coins_field_service ''nonexistenttoken'')
     = [(''error'', ''An unexpected error occurred: '' @ quoted ''coins'')] \<and>
   fst (crypto_price example_python no_coins_field_service ''nonexistenttoken'')
     \<noteq> [(''error'', ''Could not find nonexistenttoken or its price.'')]"
  by (simp add: no_coins_field_service_def fetch_def ok_def has_usd_obj crypto_price_def
      crypto_price_try_def has_coins_def key_error_def repr_def example_python_def
      ascii_lower_def handle_def quoted_def)

text \<open>
  C3, amended. When the direct lookup misses and the search body is an object whose
  \<^verbatim>\<open>coins\<close> field is an empty list or is absent, the function returns
  \<^verbatim>\<open>Could not find <token_name> or its price.\<close> if the candidate list is empty or the
  whole body is the empty object; for a non-empty body without the field it returns the
  catch-all message with the \<open>KeyError\<close>'s text. Either way it has made two requests.
\<close>

theorem no_candidates_error:
  assumes "fetch http 0 (price_url (str_lower py token_name)) = Inr data"
    and "has_usd py (JStr (str_lower py token_name)) data = Inr False"
    and "fetch http 1 (search_url token_name) = Inr (JObj sd)"
    and "map_of sd ''coins'' = Some (JArr []) \<or> map_of sd ''coins'' = None"
  shows "crypto_price py http token_name =
           (if map_of sd ''coins'' = Some (JArr []) \<or> sd = []
            then [(''error'', ''Could not find '' @ token_name @ '' or its price.'')]
            else [(''error'', ''An unexpected error occurred: '' @ repr py (JStr ''coins''))],
            [price_url (str_lower py token_name), search_url token_name])"
proof (cases "map_of sd ''coins'' = Some (JArr []) \<or> sd = []")
  case True
  then have "has_coins py (JObj sd) = Inr False"
    by (auto simp: has_coins_def)
  with True show ?thesis
    by (simp add: crypto_price_def try_no_coins [OF assms(1,2,3)])
next
  case False
  with assms(4) have "has_coins py (JObj sd) = Inl (key_error py (JStr ''coins''))"
    by (simp add: has_coins_obj_absent)
  with False show ?thesis
    by (simp add: crypto_price_def try_shape1 [OF assms(1,2,3)] handle_def key_error_def)
qed

theorem no_candidates_error_witness:
  "has_usd example_python (JStr (str_lower example_python ''nonexistenttoken'')) (JObj [])
     = Inr False \<and>
   fetch empty_search_service 1 (search_url ''nonexistenttoken'')
     = Inr (JObj [(''coins'', JArr [])]) \<and>
   crypto_price example_python empty_search_service ''nonexistenttoken'' =
     ([(''error'', ''Could not find nonexistenttoken or its price.'')],
      [price_url ''nonexistenttoken'', search_url ''nonexistenttoken''])"
  using no_candidates_error [of empty_search_service example_python "''nonexistenttoken''"
      "JObj []" "[(''coins'', JArr [])]"]
  by (simp add: lower_nonexistenttoken empty_search_service_def fetch_def ok_def has_usd_obj)

text \<open>
  C6. When the direct lookup misses, the search's first candidate has identifier
  \<open>first_coin_id\<close>, and the price body fetched for it is an object that has no entry
  under that identifier, or an entry that is an object without a \<^verbatim>\<open>usd\<close> field, the
  function returns \<^verbatim>\<open>Could not find price for <token_name>.\<close>
\<close>

theorem fallback_price_missing:
  assumes "fetch http 0 (price_url (str_lower py token_name)) = Inr data"
    and "has_usd py (JStr (str_lower py token_name)) data = Inr False"
    and "fetch http 1 (search_url token_name) = Inr (JObj sd)"
    and "map_of sd ''coins'' = Some (JArr (JObj coin # rest))"
    and "map_of coin ''id'' = Some (JStr first_coin_id)"
    and "fetch http 2 (price_url first_coin_id) = Inr (JObj pd)"
    and "map_of pd first_coin_id = None \<or>
         (\<exists>entry. map_of pd first_coin_id = Some (JObj entry) \<and> map_of entry ''usd'' = None)"
  shows "crypto_price py http token_name =
           ([(''error'', ''Could not find price for '' @ token_name @ ''.'')],
            [price_url (str_lower py token_name), search_url token_name,
             price_url first_coin_id])"
proof -
  have coins: "has_coins py (JObj sd) = Inr True"
    using assms(4) by (simp add: has_coins_obj)
  have ident: "first_coin py (JObj sd) = Inr (JStr first_coin_id)"
    using assms(4,5) by (simp add: first_coin_obj)
  have third: "fetch http 2 (price_url (format py (JStr first_coin_id))) = Inr (JObj pd)"
    using assms(6) by (simp add: format_def)
  have found: "has_usd py (JStr first_coin_id) (JObj pd) = Inr False"
    using assms(7) by (auto simp: has_usd_obj)
  show ?thesis
    by (simp add: crypto_price_def try_fallback [OF assms(1,2,3) coins ident third] found
        format_def)
qed

theorem fallback_price_missing_witness:
  "has_usd example_python (JStr (str_lower example_python ''Doge'')) (JObj []) = Inr False \<and>
   fetch unpriced_service 2 (price_url ''dogecoin'')
     = Inr (JObj [(''dogecoin'', JObj [])]) \<and>
   crypto_price example_python unpriced_service ''Doge'' =
     ([(''error'', ''Could not find price for Doge.'')],
      [price_url ''doge'', search_url ''Doge'', price_url ''dogecoin''])"
  using fallback_price_missing [of unpriced_service example_python "''Doge''" "JObj []"
      "[(''coins'', JArr [JObj [(''id'', JStr ''dogecoin'')]])]"
      "[(''id'', JStr ''dogecoin'')]" "[]" "''dogecoin''" "[(''dogecoin'', JObj [])]"]
  by (simp add: lower_Doge unpriced_service_def fetch_def ok_def has_usd_obj)

text \<open>
  C10. When the direct lookup misses and the search body's \<^verbatim>\<open>coins\<close> is a list that
  starts with an object without an \<^verbatim>\<open>id\<close> field, the function still returns an error
  dict: the catch-all message followed by the \<open>KeyError\<close>'s text, which is neither of
  the two messages for a lookup that found nothing. No third request is made.
\<close>

theorem candidate_without_id:
  assumes "fetch http 0 (price_url (str_lower py token_name)) = Inr data"
    and "has_usd py (JStr (str_lower py token_name)) data = Inr False"
    and "fetch http 1 (search_url token_name) = Inr (JObj sd)"
    and "map_of sd ''coins'' = Some (JArr (JObj coin # rest))"
    and "map_of coin ''id'' = None"
  shows "crypto_price py http token_name =
           ([(''error'', ''An unexpected error occurred: '' @ repr py (JStr ''id''))],
            [price_url (str_lower py token_name), search_url token_name]) \<and>
         fst (crypto_price py http token_name) \<noteq>
           [(''error'', ''Could not find '' @ token_name @ '' or its price.'')] \<and>
         fst (crypto_price py http token_name) \<noteq>
           [(''error'', ''Could not find price for '' @ token_name @ ''.'')]"
proof -
  have coins: "has_coins py (JObj sd) = Inr True"
    using assms(4) by (simp add: has_coins_obj)
  have ident: "first_coin py (JObj sd) = Inl (key_error py (JStr ''id''))"
    using assms(4,5) by (simp add: first_coin_obj)
  show ?thesis
    by (simp add: crypto_price_def try_shape_id [OF assms(1,2,3) coins ident] handle_def
        key_error_def)
qed

theorem candidate_without_id_witness:
  "has_usd example_python (JStr (str_lower example_python ''Doge'')) (JObj []) = Inr False \<and>
   fetch no_id_service 1 (search_url ''Doge'')
     = Inr (JObj [(''coins'', JArr [JObj [(''name'', JStr ''Dogecoin'')]])]) \<and>
   crypto_price example_python no_id_service ''Doge'' =
     ([(''error'', ''An unexpected error occurred: '' @ quoted ''id'')],
      [price_url ''doge'', search_url ''Doge''])"
  using candidate_without_id [of no_id_service example_python "''Doge''" "JObj []"
      "[(''coins'', JArr [JObj [(''name'', JStr ''Dogecoin'')]])]"
      "[(''name'', JStr ''Dogecoin'')]" "[]"]
  by (simp add: lower_Doge no_id_service_def fetch_def ok_def has_usd_obj repr_example_str)

subsection \<open>Every call returns a dict, and the same dict for the same answers\<close>

text \<open>
  C7. Whatever the service does (raise, answer with any status, send any body or none
  that decodes), the function returns a dict, and the dict is either
  \<^verbatim>\<open>{"token": token_name, "price": ...}\<close> or \<^verbatim>\<open>{"error": ...}\<close>, never both. It
  has made between one and three requests. (The function is total in the embedding: every
  exception the body can raise is a value that one of the two handlers turns into a dict.)
\<close>

theorem structured_outcome:
  "((\<exists>price. fst (crypto_price py http t) = [(''token'', t), (''price'', price)]) \<or>
    (\<exists>m. fst (crypto_price py http t) = [(''error'', m)])) \<and>
   \<not> ((\<exists>price. fst (crypto_price py http t) = [(''token'', t), (''price'', price)]) \<and>
      (\<exists>m. fst (crypto_price py http t) = [(''error'', m)])) \<and>
   1 \<le> length (snd (crypto_price py http t)) \<and> length (snd (crypto_price py http t)) \<le> 3"
proof -
  obtain r urls where run: "crypto_price_try py http t = (r, urls)"
    by (cases "crypto_price_try py http t")
  note shape = try_shape [OF run]
  show ?thesis
  proof (cases r)
    case (Inl e)
    with run have "crypto_price py http t = (handle e, urls)"
      by (simp add: crypto_price_def)
    with shape handle_shape [of e] show ?thesis
      by auto
  next
    case (Inr d)
    with run have "crypto_price py http t = (d, urls)"
      by (simp add: crypto_price_def)
    with shape Inr show ?thesis
      by auto
  qed
qed

theorem structured_outcome_witness:
  "(\<exists>price. fst (crypto_price example_python bitcoin_service ''Bitcoin'')
      = [(''token'', ''Bitcoin''), (''price'', price)]) \<and>
   \<not> (\<exists>m. fst (crypto_price example_python bitcoin_service ''Bitcoin'') = [(''error'', m)]) \<and>
   length (snd (crypto_price example_python bitcoin_service ''Bitcoin'')) \<le> 3"
  using structured_outcome [where py = example_python and http = bitcoin_service
      and t = "''Bitcoin''"]
  by (simp add: crypto_price_def crypto_price_try_def lower_Bitcoin bitcoin_service_def
      fetch_def ok_def has_usd_obj get_usd_def)

text \<open>
  C8. The function keeps nothing between calls: its result is a function of the token
  name and of what the service answers to the requests the call makes. If a second call
  with the same token name gets, for each of those requests, the answer the first call
  got, it returns the same dict after the same requests, whatever else about the service
  differs.
\<close>

theorem same_answers_same_outcome:
  assumes "\<forall>n < length (snd (crypto_price py http t)).
             http' n (snd (crypto_price py http t) ! n)
               = http n (snd (crypto_price py http t) ! n)"
  shows "crypto_price py http' t = crypto_price py http t"
proof -
  have "crypto_price_try py http' t = crypto_price_try py http t"
  proof (rule try_same_answers)
    fix n
    assume "n < length (snd (crypto_price_try py http t))"
    with assms have "http' n (snd (crypto_price_try py http t) ! n)
        = http n (snd (crypto_price_try py http t) ! n)"
      by (simp add: crypto_price_urls)
    then show "fetch http' n (snd (crypto_price_try py http t) ! n)
        = fetch http n (snd (crypto_price_try py http t) ! n)"
      by (simp add: fetch_def)
  qed
  then show ?thesis
    by (simp add: crypto_price_def)
qed

theorem same_answers_same_outcome_witness:
  "snd (crypto_price example_python bitcoin_service ''Bitcoin'') = [price_url ''bitcoin''] \<and>
   other_bitcoin_service 0 (price_url ''bitcoin'') = bitcoin_service 0 (price_url ''bitcoin'') \<and>
   other_bitcoin_service 1 (search_url ''Bitcoin'')
     \<noteq> bitcoin_service 1 (search_url ''Bitcoin'') \<and>
   crypto_price example_python other_bitcoin_service ''Bitcoin''
     = crypto_price example_python bitcoin_service ''Bitcoin''"
proof -
  have urls: "snd (crypto_price example_python bitcoin_service ''Bitcoin'')
      = [price_url ''bitcoin'']"
    by (simp add: crypto_price_urls crypto_price_try_def lower_Bitcoin bitcoin_service_def
        fetch_def ok_def has_usd_obj)
  have first: "other_bitcoin_service 0 (price_url ''bitcoin'')
      = bitcoin_service 0 (price_url ''bitcoin'')"
    by (simp add: other_bitcoin_service_def bitcoin_service_def)
  have second: "other_bitcoin_service 1 (search_url ''Bitcoin'')
      \<noteq> bitcoin_service 1 (search_url ''Bitcoin'')"
    by (simp add: other_bitcoin_service_def bitcoin_service_def ok_def)
  have "crypto_price example_python other_bitcoin_service ''Bitcoin''
      = crypto_price example_python bitcoin_service ''Bitcoin''"
    by (rule same_answers_same_outcome) (simp add: urls first)
  with urls first second show ?thesis
    by simp
qed

subsection \<open>Failures\<close>

text \<open>
  C4, as the claim states it, fails for a malformed body: \<^verbatim>\<open>response.json()\<close> then
  raises \<^verbatim>\<open>requests.exceptions.JSONDecodeError\<close>, which is a \<open>RequestException\<close>,
  so the first handler answers, with the message for a failed fetch.
\<close>

theorem malformed_body_counterexample:
  "malformed_body_service 0 (price_url (str_lower example_python ''bitcoin''))
     = Returns \<lparr>status_code = 200, http_error_text = [],
                json_result = Inl (Exc RequestsJSONDecodeError
                                    ''Expecting value: line 1 column 1 (char 0)'')\<rparr> \<and>
   fst (crypto_price example_python malformed_body_service ''bitcoin'')
     = [(''error'',
         ''Failed to fetch crypto price: Expecting value: line 1 column 1 (char 0)'')] \<and>
   fst (crypto_price example_python malformed_body_service ''bitcoin'')
     \<noteq> [(''error'',
         ''An unexpected error occurred: Expecting value: line 1 column 1 (char 0)'')]"
  by (simp add: malformed_body_service_def crypto_price_def crypto_price_try_def fetch_def
      handle_def)

text \<open>
  C4, amended, in two parts.

  First, a request that fails. If a request the call makes, the first, the second or the
  third, raises an exception of class \<open>c\<close> and text \<open>m\<close> (in \<^verbatim>\<open>requests.get\<close>,
  in \<^verbatim>\<open>raise_for_status\<close>, or in \<^verbatim>\<open>json\<close> for a malformed body), the function
  returns \<^verbatim>\<open>{"error": "An unexpected error occurred: <m>"}\<close> when \<open>c\<close> is outside
  the \<open>RequestException\<close> family, and the message for a failed fetch when \<open>c\<close> is in
  it. So a malformed body gets the generic message exactly when the library reports it
  with an exception outside the family.

  Second, a body the function cannot handle. If the \<^verbatim>\<open>try\<close> block raises although
  every request the call made has succeeded, the exception is a \<open>TypeError\<close>, a
  \<open>KeyError\<close> or an \<open>IndexError\<close>, raised by \<^verbatim>\<open>in\<close> or by a subscript on a
  body of an unexpected shape, and the function returns the generic message with its
  text. Nothing is said of an unexpected shape on which no operation raises: there is no
  failure then, and the function goes on as after a miss or a hit.
\<close>

theorem failure_report:
  "(n < length (snd (crypto_price py http t)) \<and>
    fetch http n (snd (crypto_price py http t) ! n) = Inl (Exc c m) \<longrightarrow>
      fst (crypto_price py http t) =
        [(''error'',
          (if is_request_exception c then ''Failed to fetch crypto price: ''
           else ''An unexpected error occurred: '') @ m)]) \<and>
   (fst (crypto_price_try py http t) = Inl (Exc c' m') \<and>
    (\<forall>k < length (snd (crypto_price py http t)).
       \<exists>body. fetch http k (snd (crypto_price py http t) ! k) = Inr body) \<longrightarrow>
      (c' = TypeError \<or> c' = KeyError \<or> c' = IndexError) \<and>
      fst (crypto_price py http t) = [(''error'', ''An unexpected error occurred: '' @ m')])"
proof (intro conjI impI)
  assume "n < length (snd (crypto_price py http t)) \<and>
    fetch http n (snd (crypto_price py http t) ! n) = Inl (Exc c m)"
  then have "fst (crypto_price_try py http t) = Inl (Exc c m)"
    by (auto simp: crypto_price_urls intro: try_transport_failure)
  then show "fst (crypto_price py http t) =
        [(''error'',
          (if is_request_exception c then ''Failed to fetch crypto price: ''
           else ''An unexpected error occurred: '') @ m)]"
    by (cases "crypto_price_try py http t") (simp add: crypto_price_def handle_def)
next
  assume shape: "fst (crypto_price_try py http t) = Inl (Exc c' m') \<and>
    (\<forall>k < length (snd (crypto_price py http t)).
       \<exists>body. fetch http k (snd (crypto_price py http t) ! k) = Inr body)"
  obtain urls where run: "crypto_price_try py http t = (Inl (Exc c' m'), urls)"
    using shape by (cases "crypto_price_try py http t") simp
  with shape have "\<forall>k < length urls. \<exists>body. fetch http k (urls ! k) = Inr body"
    by (simp add: crypto_price_urls)
  with run have cls: "c' = TypeError \<or> c' = KeyError \<or> c' = IndexError"
    by (rule try_raises)
  then show "c' = TypeError \<or> c' = KeyError \<or> c' = IndexError" .
  from cls have "\<not> is_request_exception c'"
    by auto
  with run show "fst (crypto_price py http t)
      = [(''error'', ''An unexpected error occurred: '' @ m')]"
    by (simp add: crypto_price_def handle_def)
qed

theorem failure_report_witness:
  "snd (crypto_price example_python malformed_search_service ''Doge'')
     = [price_url ''doge'', search_url ''Doge''] \<and>
   fetch malformed_search_service 1 (search_url ''Doge'')
     = Inl (Exc ValueError ''Expecting value: line 1 column 1 (char 0)'') \<and>
   \<not> is_request_exception ValueError \<and>
   fst (crypto_price example_python malformed_search_service ''Doge'')
     = [(''error'',
         ''An unexpected error occurred: Expecting value: line 1 column 1 (char 0)'')] \<and>
   fst (crypto_price_try example_python null_body_service ''bitcoin'')
     = Inl (Exc TypeError
             (''argument of type '' @ quoted ''NoneType'' @ '' is not iterable'')) \<and>
   snd (crypto_price example_python null_body_service ''bitcoin'') = [price_url ''bitcoin''] \<and>
   fetch null_body_service 0 (price_url ''bitcoin'') = Inr JNull \<and>
   fst (crypto_price example_python null_body_service ''bitcoin'')
     = [(''error'', ''An unexpected error occurred: argument of type '' @ quoted ''NoneType''
          @ '' is not iterable'')]"
proof -
  have urls: "snd (crypto_price example_python malformed_search_service ''Doge'')
      = [price_url ''doge'', search_url ''Doge'']"
    by (simp add: crypto_price_urls crypto_price_try_def lower_Doge
        malformed_search_service_def fetch_def ok_def has_usd_obj)
  have second: "fetch malformed_search_service 1 (search_url ''Doge'')
      = Inl (Exc ValueError ''Expecting value: line 1 column 1 (char 0)'')"
    by (simp add: malformed_search_service_def fetch_def)
  have request: "fst (crypto_price example_python malformed_search_service ''Doge'')
      = [(''error'',
          ''An unexpected error occurred: Expecting value: line 1 column 1 (char 0)'')]"
    using failure_report [where py = example_python and http = malformed_search_service
        and t = "''Doge''" and n = 1 and c = ValueError
        and m = "''Expecting value: line 1 column 1 (char 0)''", THEN conjunct1]
      urls second
    by simp
  have raised: "fst (crypto_price_try example_python null_body_service ''bitcoin'')
      = Inl (Exc TypeError
              (''argument of type '' @ quoted ''NoneType'' @ '' is not iterable''))"
    by (simp add: crypto_price_try_def null_body_service_def fetch_def ok_def has_usd_def
        contains_def type_error_def example_python_def ascii_lower_def
        cpython_type_error_text_def)
  have urls': "snd (crypto_price example_python null_body_service ''bitcoin'')
      = [price_url ''bitcoin'']"
    by (simp add: crypto_price_urls crypto_price_try_def null_body_service_def fetch_def
        ok_def has_usd_def contains_def example_python_def ascii_lower_def)
  have first: "fetch null_body_service 0 (price_url ''bitcoin'') = Inr JNull"
    by (simp add: null_body_service_def fetch_def ok_def)
  have shape: "fst (crypto_price example_python null_body_service ''bitcoin'')
      = [(''error'', ''An unexpected error occurred: argument of type '' @ quoted ''NoneType''
           @ '' is not iterable'')]"
    using failure_report [where py = example_python and http = null_body_service
        and t = "''bitcoin''" and c' = TypeError
        and m' = "''argument of type '' @ quoted ''NoneType'' @ '' is not iterable''",
        THEN conjunct2]
      raised urls' first
    by simp
  from urls second request raised urls' first shape show ?thesis
    by simp
qed

subsection \<open>Transport failures\<close>




end
